theory Spec2Isabelle
  imports Complex_Main "HOL-Library.Word"
begin

unbundle bit_operations_syntax

section \<open>The native window bridge of \<^verbatim>\<open>macos_window_manager.cc\<close>\<close>

text \<open>
  The file exports two N-API callbacks, \<^verbatim>\<open>GetScreenInfo\<close> and
  \<^verbatim>\<open>ForceWindowOverDock\<close>. Both are embedded as functions from the callback's
  argument list and the state of the window server to a result and the new state.
  What the operating system owns (the display frames, the dock's window level, the
  application's windows) is a field of that state; every Objective-C message the code
  sends to a window is a step on it, recorded in the order it is sent.
\<close>

subsection \<open>Geometry\<close>

text \<open>
  \<^verbatim>\<open>CGRect\<close> (and \<^verbatim>\<open>NSRect\<close>, the same type) is an origin and a size of
  \<^verbatim>\<open>CGFloat\<close>. The type of the coordinates is a parameter \<open>'f\<close>: the file copies
  them, and subtracts in one place only.
\<close>

record 'f CGPoint =
  point_x :: 'f
  point_y :: 'f

record 'f CGSize =
  size_width :: 'f
  size_height :: 'f

record 'f CGRect =
  origin :: "'f CGPoint"
  rect_size :: "'f CGSize"

definition NSMakeRect :: "'f \<Rightarrow> 'f \<Rightarrow> 'f \<Rightarrow> 'f \<Rightarrow> 'f CGRect" where
  "NSMakeRect x y w h =
     \<lparr>origin = \<lparr>point_x = x, point_y = y\<rparr>, rect_size = \<lparr>size_width = w, size_height = h\<rparr>\<rparr>"

subsection \<open>Windows and the messages they receive\<close>

type_synonym NSInteger = "64 word"
type_synonym NSUInteger = "64 word"
type_synonym int32 = "32 word"

record 'f NSWindow =
  windowNumber :: NSInteger
  level :: NSInteger
  frame :: "'f CGRect"
  collectionBehavior :: NSUInteger
  isMovable :: bool

text \<open>The bits of \<^verbatim>\<open>NSWindowCollectionBehavior\<close>, as AppKit's \<^verbatim>\<open>NSWindow.h\<close> declares them.\<close>

definition NSWindowCollectionBehaviorCanJoinAllSpaces :: NSUInteger where
  "NSWindowCollectionBehaviorCanJoinAllSpaces = push_bit 0 1"

definition NSWindowCollectionBehaviorStationary :: NSUInteger where
  "NSWindowCollectionBehaviorStationary = push_bit 4 1"

definition NSWindowCollectionBehaviorIgnoresCycle :: NSUInteger where
  "NSWindowCollectionBehaviorIgnoresCycle = push_bit 6 1"

text \<open>The four setters the file calls, with their arguments. A window that receives
  one stores the value in the property the setter names; the two flags of
  \<^verbatim>\<open>setFrame:display:animate:\<close> say how the window is redrawn and are kept in the
  message.\<close>

datatype 'f msg =
    setLevel NSInteger
  | setFrame_display_animate "'f CGRect" bool bool
  | setCollectionBehavior NSUInteger
  | setMovable bool

fun receive :: "'f NSWindow \<Rightarrow> 'f msg \<Rightarrow> 'f NSWindow" where
  "receive w (setLevel l) = w\<lparr>level := l\<rparr>"
| "receive w (setFrame_display_animate r display animate) = w\<lparr>frame := r\<rparr>"
| "receive w (setCollectionBehavior b) = w\<lparr>collectionBehavior := b\<rparr>"
| "receive w (setMovable b) = w\<lparr>isMovable := b\<rparr>"

subsection \<open>The state the operating system owns\<close>

text \<open>
  \<open>CGMainDisplayBounds\<close> is \<^verbatim>\<open>CGDisplayBounds(CGMainDisplayID())\<close>,
  \<open>mainScreen_visibleFrame\<close> and \<open>mainScreen_frame\<close> are the
  \<^verbatim>\<open>visibleFrame\<close> and the \<^verbatim>\<open>frame\<close> of \<^verbatim>\<open>[NSScreen mainScreen]\<close>,
  \<open>kCGDockWindowLevel\<close> is the \<^verbatim>\<open>CGWindowLevel\<close> (a 32-bit integer) the macro of that
  name asks the window server for, \<open>NSApp_windows\<close> is \<^verbatim>\<open>[NSApp windows]\<close>. A window
  is named by its position in that array. \<open>sent\<close> lists the messages sent to windows,
  oldest first.
\<close>

record 'f macOS =
  CGMainDisplayBounds :: "'f CGRect"
  mainScreen_visibleFrame :: "'f CGRect"
  mainScreen_frame :: "'f CGRect"
  kCGDockWindowLevel :: int32
  NSApp_windows :: "'f NSWindow list"
  sent :: "(nat \<times> 'f msg) list"

definition send :: "nat \<Rightarrow> 'f msg \<Rightarrow> 'f macOS \<Rightarrow> 'f macOS" where
  "send target m s =
     s\<lparr>NSApp_windows := (NSApp_windows s)[target := receive (NSApp_windows s ! target) m],
       sent := sent s @ [(target, m)]\<rparr>"

subsection \<open>\<^verbatim>\<open>GetScreenInfo\<close>\<close>

text \<open>The object handed back to JavaScript.\<close>

record 'f Rect =
  rect_x :: 'f
  rect_y :: 'f
  rect_width :: 'f
  rect_height :: 'f

record 'f ScreenInfo =
  screen :: "'f Rect"
  visible :: "'f Rect"
  dockHeight :: 'f

definition GetScreenInfo :: "'a list \<Rightarrow> ('f::minus) macOS \<Rightarrow> 'f ScreenInfo \<times> 'f macOS" where
  "GetScreenInfo info s =
     (let screenBounds = CGMainDisplayBounds s;
          visibleFrame = mainScreen_visibleFrame s;
          fullFrame = mainScreen_frame s;
          dockHeight = size_height (rect_size fullFrame) - size_height (rect_size visibleFrame)
                         - point_y (origin visibleFrame);
          screen = \<lparr>rect_x = point_x (origin screenBounds),
                    rect_y = point_y (origin screenBounds),
                    rect_width = size_width (rect_size screenBounds),
                    rect_height = size_height (rect_size screenBounds)\<rparr>;
          visible = \<lparr>rect_x = point_x (origin visibleFrame),
                     rect_y = point_y (origin visibleFrame),
                     rect_width = size_width (rect_size visibleFrame),
                     rect_height = size_height (rect_size visibleFrame)\<rparr>
      in (\<lparr>screen = screen, visible = visible, dockHeight = dockHeight\<rparr>, s))"

subsection \<open>\<^verbatim>\<open>ForceWindowOverDock\<close>\<close>

text \<open>
  The arguments are JavaScript numbers, as the interface declares them. A finite
  double is modelled by the real it denotes; \<open>NaN\<close> and the two infinities are not
  values of the model. \<^verbatim>\<open>Int32Value()\<close> is N-API's \<^verbatim>\<open>napi_get_value_int32\<close>: the
  fraction is dropped, and of the integer the low 32 bits are kept and read as a signed
  number. \<^verbatim>\<open>DoubleValue()\<close> hands the number over as it is.

  The guard sets a pending JavaScript exception and returns; the caller sees the
  exception, so the result of that branch is the error.
\<close>

type_synonym double = real

definition Int32Value :: "double \<Rightarrow> int32" where
  "Int32Value d = word_of_int (if 0 \<le> d then \<lfloor>d\<rfloor> else \<lceil>d\<rceil>)"

definition DoubleValue :: "double \<Rightarrow> double" where
  "DoubleValue d = d"

datatype error = TypeError string

text \<open>The \<^verbatim>\<open>for\<close> loop over \<^verbatim>\<open>[NSApp windows]\<close>: the position of the first window
  whose number equals \<^verbatim>\<open>windowId\<close>, converted from \<^verbatim>\<open>int\<close> to \<^verbatim>\<open>NSInteger\<close>;
  \<open>None\<close> is \<^verbatim>\<open>nil\<close>.\<close>

fun findWindow :: "'f NSWindow list \<Rightarrow> int32 \<Rightarrow> nat option" where
  "findWindow [] windowId = None"
| "findWindow (window # windows) windowId =
     (if windowNumber window = scast windowId then Some 0
      else map_option Suc (findWindow windows windowId))"

definition ForceWindowOverDock ::
  "double list \<Rightarrow> double macOS \<Rightarrow> (error + bool) \<times> double macOS" where
  "ForceWindowOverDock info s =
     (if length info < 5 then (Inl (TypeError ''Wrong number of arguments''), s)
      else
        let windowId = Int32Value (info ! 0);
            x = DoubleValue (info ! 1);
            y = DoubleValue (info ! 2);
            width = DoubleValue (info ! 3);
            height = DoubleValue (info ! 4)
        in case findWindow (NSApp_windows s) windowId of
             None \<Rightarrow> (Inr False, s)
           | Some targetWindow \<Rightarrow>
               let s1 = send targetWindow (setLevel (scast (kCGDockWindowLevel s + 1))) s;
                   frame = NSMakeRect x y width height;
                   s2 = send targetWindow (setFrame_display_animate frame True False) s1;
                   s3 = send targetWindow
                          (setCollectionBehavior
                             (NSWindowCollectionBehaviorCanJoinAllSpaces
                                OR NSWindowCollectionBehaviorStationary
                                OR NSWindowCollectionBehaviorIgnoresCycle)) s2;
                   s4 = send targetWindow (setMovable False) s3
               in (Inr True, s4))"

subsection \<open>Example states\<close>

text \<open>
  A single display of 1440 by 900 with a dock of 70 and a menu bar of 25, and an
  application with five windows; and the same application while its key window is on
  an external display of 2560 by 1440 placed above the built-in one, so that
  \<^verbatim>\<open>[NSScreen mainScreen]\<close> is the external display.
\<close>

definition demo_window :: "NSInteger \<Rightarrow> double NSWindow" where
  "demo_window n =
     \<lparr>windowNumber = n, level = 0, frame = NSMakeRect 100 100 640 480,
      collectionBehavior = 0, isMovable = True\<rparr>"

definition demo_desktop :: "double macOS" where
  "demo_desktop =
     \<lparr>CGMainDisplayBounds = NSMakeRect 0 0 1440 900,
      mainScreen_visibleFrame = NSMakeRect 0 70 1440 805,
      mainScreen_frame = NSMakeRect 0 0 1440 900,
      kCGDockWindowLevel = 20,
      NSApp_windows =
        [demo_window 3, demo_window 7, demo_window 4294967301, demo_window 7, demo_window 5],
      sent = []\<rparr>"

definition demo_external :: "double macOS" where
  "demo_external =
     \<lparr>CGMainDisplayBounds = NSMakeRect 0 0 1440 900,
      mainScreen_visibleFrame = NSMakeRect 0 900 2560 1415,
      mainScreen_frame = NSMakeRect 0 900 2560 1440,
      kCGDockWindowLevel = 20,
      NSApp_windows = [demo_window 3],
      sent = []\<rparr>"

text \<open>
  An application whose windows are numbered 7, 4294967301 (that is \<open>2\<^sup>3\<^sup>2 + 5\<close>),
  65543 (that is \<open>2\<^sup>1\<^sup>6 + 7\<close>) and 5, in this order.
\<close>

definition demo_numbers :: "double macOS" where
  "demo_numbers =
     \<lparr>CGMainDisplayBounds = NSMakeRect 0 0 1440 900,
      mainScreen_visibleFrame = NSMakeRect 0 70 1440 805,
      mainScreen_frame = NSMakeRect 0 0 1440 900,
      kCGDockWindowLevel = 20,
      NSApp_windows =
        [demo_window 7, demo_window 4294967301, demo_window 65543, demo_window 5],
      sent = []\<rparr>"

subsection \<open>The identifier as a signed 32-bit integer\<close>

text \<open>
  What truncating a number to a signed 32-bit integer means, written on the integers
  and without the conversion of the code: the fraction is dropped, and the integer is
  wrapped into the range from \<open>-2\<^sup>3\<^sup>1\<close> to \<open>2\<^sup>3\<^sup>1 - 1\<close>. The code is compared with
  it below.
\<close>

definition truncate_int32 :: "double \<Rightarrow> int" where
  "truncate_int32 d =
     ((if 0 \<le> d then \<lfloor>d\<rfloor> else \<lceil>d\<rceil>) + 2 ^ 31) mod 2 ^ 32 - 2 ^ 31"

section \<open>Auxiliary facts\<close>

subsection \<open>The loop\<close>

lemma findWindow_Some:
  "findWindow ws wid = Some i \<Longrightarrow>
     i < length ws \<and> windowNumber (ws ! i) = scast wid \<and>
     (\<forall>j<i. windowNumber (ws ! j) \<noteq> scast wid)"
proof (induction ws arbitrary: i)
  case Nil
  then show ?case by simp
next
  case (Cons w ws)
  show ?case
  proof (cases "windowNumber w = scast wid")
    case True
    with Cons.prems show ?thesis by simp
  next
    case False
    with Cons.prems obtain k where k: "findWindow ws wid = Some k" "i = Suc k"
      by auto
    from Cons.IH [OF k(1)] False k(2) show ?thesis
      by (auto simp: less_Suc_eq_0_disj)
  qed
qed

lemma findWindow_None:
  "findWindow ws wid = None \<longleftrightarrow> (\<forall>w \<in> set ws. windowNumber w \<noteq> scast wid)"
  by (induction ws) auto

lemma findWindow_first:
  "i < length ws \<Longrightarrow> windowNumber (ws ! i) = scast wid \<Longrightarrow>
   \<forall>j<i. windowNumber (ws ! j) \<noteq> scast wid \<Longrightarrow> findWindow ws wid = Some i"
proof (induction ws arbitrary: i)
  case Nil
  then show ?case by simp
next
  case (Cons w ws)
  show ?case
  proof (cases i)
    case 0
    with Cons.prems show ?thesis by simp
  next
    case (Suc k)
    with Cons.prems have "windowNumber w \<noteq> scast wid" by auto
    moreover from Suc Cons.prems have "findWindow ws wid = Some k"
      by (intro Cons.IH) auto
    ultimately show ?thesis using Suc by simp
  qed
qed

lemma findWindow_cong:
  "map windowNumber ws = map windowNumber ws' \<Longrightarrow> findWindow ws wid = findWindow ws' wid"
proof (induction ws arbitrary: ws')
  case Nil
  then show ?case by simp
next
  case (Cons w ws)
  then obtain v vs where "ws' = v # vs" by (cases ws') auto
  with Cons show ?case by auto
qed

subsection \<open>Words\<close>

lemma sint_scast_int32: "sint (scast (w :: int32) :: NSInteger) = sint w"
  by (simp add: sint_up_scast is_up)

lemma sint_int32_range: "- (2 ^ 31) \<le> sint (w :: int32) \<and> sint w < 2 ^ 31"
  using sint_ge [of w] sint_lt [of w] by simp

lemma sint_succ_int32:
  assumes "sint (d :: int32) < 2 ^ 31 - 1"
  shows "sint (d + 1) = sint d + 1"
proof -
  have "sint (d + 1) = signed_take_bit 31 (sint d + 1)"
    by (simp add: sint_word_ariths)
  also have "\<dots> = sint d + 1"
    using assms sint_int32_range [of d] by (intro signed_take_bit_int_eq_self) auto
  finally show ?thesis .
qed

subsection \<open>The two outcomes of a well-formed call\<close>

lemma ForceWindowOverDock_Some:
  assumes "5 \<le> length info"
    and "findWindow (NSApp_windows s) (Int32Value (info ! 0)) = Some i"
  shows "ForceWindowOverDock info s =
    (Inr True,
     s\<lparr>NSApp_windows := (NSApp_windows s)[i := (NSApp_windows s ! i)
         \<lparr>level := scast (kCGDockWindowLevel s + 1),
          frame := \<lparr>origin = \<lparr>point_x = info ! 1, point_y = info ! 2\<rparr>,
                    rect_size = \<lparr>size_width = info ! 3, size_height = info ! 4\<rparr>\<rparr>,
          collectionBehavior := NSWindowCollectionBehaviorCanJoinAllSpaces
                                  OR NSWindowCollectionBehaviorStationary
                                  OR NSWindowCollectionBehaviorIgnoresCycle,
          isMovable := False\<rparr>],
       sent := sent s @
         [(i, setLevel (scast (kCGDockWindowLevel s + 1))),
          (i, setFrame_display_animate
                \<lparr>origin = \<lparr>point_x = info ! 1, point_y = info ! 2\<rparr>,
                 rect_size = \<lparr>size_width = info ! 3, size_height = info ! 4\<rparr>\<rparr> True False),
          (i, setCollectionBehavior
                (NSWindowCollectionBehaviorCanJoinAllSpaces
                   OR NSWindowCollectionBehaviorStationary
                   OR NSWindowCollectionBehaviorIgnoresCycle)),
          (i, setMovable False)]\<rparr>)"
proof -
  from findWindow_Some [OF assms(2)] have "i < length (NSApp_windows s)" by simp
  with assms show ?thesis
    by (simp add: ForceWindowOverDock_def send_def Let_def NSMakeRect_def DoubleValue_def)
qed

lemma ForceWindowOverDock_None:
  assumes "5 \<le> length info"
    and "findWindow (NSApp_windows s) (Int32Value (info ! 0)) = None"
  shows "ForceWindowOverDock info s = (Inr False, s)"
  using assms by (simp add: ForceWindowOverDock_def Let_def)

lemma ForceWindowOverDock_short:
  "length info < 5 \<Longrightarrow>
   ForceWindowOverDock info s = (Inl (TypeError ''Wrong number of arguments''), s)"
  by (simp add: ForceWindowOverDock_def)

subsection \<open>Windows a call leaves alone\<close>

lemma ForceWindowOverDock_untouched:
  assumes "findWindow (NSApp_windows s) (Int32Value (info ! 0)) \<noteq> Some j"
  shows "NSApp_windows (snd (ForceWindowOverDock info s)) ! j = NSApp_windows s ! j"
proof (cases "length info < 5")
  case True
  then show ?thesis by (simp add: ForceWindowOverDock_short)
next
  case False
  then have n: "5 \<le> length info" by simp
  show ?thesis
  proof (cases "findWindow (NSApp_windows s) (Int32Value (info ! 0))")
    case None
    then show ?thesis by (simp add: ForceWindowOverDock_None [OF n])
  next
    case (Some i)
    with assms have "i \<noteq> j" by simp
    then show ?thesis by (simp add: ForceWindowOverDock_Some [OF n Some])
  qed
qed

subsection \<open>The conversion of the identifier\<close>

lemma sint_Int32Value: "sint (Int32Value a) = truncate_int32 a"
  by (simp add: Int32Value_def truncate_int32_def int_word_sint)

lemma truncate_int32_range: "- (2 ^ 31) \<le> truncate_int32 a \<and> truncate_int32 a < 2 ^ 31"
  using sint_int32_range [of "Int32Value a"] by (simp add: sint_Int32Value)

lemma windowNumber_eq_iff:
  "windowNumber w = scast (Int32Value a) \<longleftrightarrow> sint (windowNumber w) = truncate_int32 a"
proof
  assume "windowNumber w = scast (Int32Value a)"
  then show "sint (windowNumber w) = truncate_int32 a"
    by (simp add: sint_scast_int32 sint_Int32Value)
next
  assume "sint (windowNumber w) = truncate_int32 a"
  then have "sint (windowNumber w) = sint (scast (Int32Value a) :: NSInteger)"
    by (simp add: sint_scast_int32 sint_Int32Value)
  then show "windowNumber w = scast (Int32Value a)"
    by (rule signed_word_eqI)
qed

lemma Int32Value_eq_iff: "Int32Value a = Int32Value b \<longleftrightarrow> truncate_int32 a = truncate_int32 b"
proof
  assume "Int32Value a = Int32Value b"
  then show "truncate_int32 a = truncate_int32 b"
    by (simp flip: sint_Int32Value)
next
  assume "truncate_int32 a = truncate_int32 b"
  then have "sint (Int32Value a) = sint (Int32Value b)"
    by (simp add: sint_Int32Value)
  then show "Int32Value a = Int32Value b"
    by (rule signed_word_eqI)
qed

section \<open>Properties of \<^verbatim>\<open>GetScreenInfo\<close>\<close>

text \<open>
  C1. \<open>GetScreenInfo\<close> uses none of its arguments. The object it returns has
  \<open>screen\<close> equal to the bounds of the primary display, \<open>visible\<close> equal to the visible
  frame of the main screen, and \<open>dockHeight\<close> equal to the height of the main screen's
  full frame minus the height of its visible frame minus the y origin of its visible
  frame, whatever frames the operating system reports.
\<close>

theorem GetScreenInfo_result:
  "fst (GetScreenInfo info s) =
     \<lparr>screen = \<lparr>rect_x = point_x (origin (CGMainDisplayBounds s)),
                rect_y = point_y (origin (CGMainDisplayBounds s)),
                rect_width = size_width (rect_size (CGMainDisplayBounds s)),
                rect_height = size_height (rect_size (CGMainDisplayBounds s))\<rparr>,
      visible = \<lparr>rect_x = point_x (origin (mainScreen_visibleFrame s)),
                 rect_y = point_y (origin (mainScreen_visibleFrame s)),
                 rect_width = size_width (rect_size (mainScreen_visibleFrame s)),
                 rect_height = size_height (rect_size (mainScreen_visibleFrame s))\<rparr>,
      dockHeight = size_height (rect_size (mainScreen_frame s))
                     - size_height (rect_size (mainScreen_visibleFrame s))
                     - point_y (origin (mainScreen_visibleFrame s))\<rparr>
   \<and> fst (GetScreenInfo info s) = fst (GetScreenInfo [] s)"
  by (simp add: GetScreenInfo_def Let_def)

text \<open>
  C9. \<open>GetScreenInfo\<close> only reads: the state after the call is the state before
  it, so no window and no display frame is changed, and a second call returns what the
  first returned. Its result depends on nothing but the three frames it reads: on two
  states that agree on them (whatever their windows, and whatever arguments are passed)
  it returns the same object.
\<close>

theorem GetScreenInfo_pure:
  "snd (GetScreenInfo info s) = s
   \<and> GetScreenInfo info (snd (GetScreenInfo info s)) = GetScreenInfo info s
   \<and> (CGMainDisplayBounds s = CGMainDisplayBounds t
        \<and> mainScreen_visibleFrame s = mainScreen_visibleFrame t
        \<and> mainScreen_frame s = mainScreen_frame t \<longrightarrow>
      fst (GetScreenInfo info s) = fst (GetScreenInfo info' t))"
  by (simp add: GetScreenInfo_def Let_def)

theorem GetScreenInfo_pure_witness:
  "CGMainDisplayBounds demo_desktop =
     CGMainDisplayBounds (snd (ForceWindowOverDock [7, 0, 0, 800, 600] demo_desktop)) \<and>
   mainScreen_visibleFrame demo_desktop =
     mainScreen_visibleFrame (snd (ForceWindowOverDock [7, 0, 0, 800, 600] demo_desktop)) \<and>
   mainScreen_frame demo_desktop =
     mainScreen_frame (snd (ForceWindowOverDock [7, 0, 0, 800, 600] demo_desktop)) \<and>
   snd (ForceWindowOverDock [7, 0, 0, 800, 600] demo_desktop) \<noteq> demo_desktop \<and>
   fst (GetScreenInfo ([] :: double list) demo_desktop) =
     fst (GetScreenInfo [True] (snd (ForceWindowOverDock [7, 0, 0, 800, 600] demo_desktop))) \<and>
   snd (GetScreenInfo ([] :: double list) demo_desktop) = demo_desktop"
proof -
  let ?t = "snd (ForceWindowOverDock [7, 0, 0, 800, 600] demo_desktop)"
  have e: "?t = demo_desktop\<lparr>NSApp_windows :=
       [demo_window 3,
        \<lparr>windowNumber = 7, level = 21, frame = NSMakeRect 0 0 800 600,
         collectionBehavior = 81, isMovable = False\<rparr>,
        demo_window 4294967301, demo_window 7, demo_window 5],
       sent := [(1, setLevel 21),
                (1, setFrame_display_animate (NSMakeRect 0 0 800 600) True False),
                (1, setCollectionBehavior 81),
                (1, setMovable False)]\<rparr>"
    by (simp add: ForceWindowOverDock_def Let_def demo_desktop_def demo_window_def
        Int32Value_def DoubleValue_def send_def NSMakeRect_def
        NSWindowCollectionBehaviorCanJoinAllSpaces_def NSWindowCollectionBehaviorStationary_def
        NSWindowCollectionBehaviorIgnoresCycle_def)
  have d: "CGMainDisplayBounds demo_desktop = CGMainDisplayBounds ?t
      \<and> mainScreen_visibleFrame demo_desktop = mainScreen_visibleFrame ?t
      \<and> mainScreen_frame demo_desktop = mainScreen_frame ?t"
    by (simp add: e)
  have n: "?t \<noteq> demo_desktop"
    by (simp add: e) (simp add: demo_desktop_def)
  from GetScreenInfo_pure [of "[] :: double list" demo_desktop ?t "[True]"] d n
  show ?thesis by blast
qed

text \<open>
  C7. The inequalities \<open>visible.width \<le> screen.width\<close>,
  \<open>visible.height \<le> screen.height\<close> and \<open>dockHeight \<ge> 0\<close> are meant for the frames of
  one display. The code reads \<open>screen\<close> from the primary display
  (\<^verbatim>\<open>CGMainDisplayID\<close>) and \<open>visible\<close> and the full frame from
  \<^verbatim>\<open>[NSScreen mainScreen]\<close>, the screen of the key window, and calls both the main
  screen. With the key window on an external display of 2560 by 1440 placed above a
  primary display of 1440 by 900, the object returned has \<open>screen\<close> 1440 by 900,
  \<open>visible\<close> 2560 by 1415 and \<open>dockHeight = 1440 - 1415 - 900 = -875\<close>: all three
  inequalities fail. The values are whole numbers, which doubles subtract exactly.
\<close>

theorem GetScreenInfo_external_display:
  "rect_width (screen (fst (GetScreenInfo ([] :: double list) demo_external))) = 1440 \<and>
   rect_height (screen (fst (GetScreenInfo ([] :: double list) demo_external))) = 900 \<and>
   rect_width (visible (fst (GetScreenInfo ([] :: double list) demo_external))) = 2560 \<and>
   rect_height (visible (fst (GetScreenInfo ([] :: double list) demo_external))) = 1415 \<and>
   dockHeight (fst (GetScreenInfo ([] :: double list) demo_external)) = - 875 \<and>
   \<not> rect_width (visible (fst (GetScreenInfo ([] :: double list) demo_external)))
       \<le> rect_width (screen (fst (GetScreenInfo ([] :: double list) demo_external))) \<and>
   \<not> rect_height (visible (fst (GetScreenInfo ([] :: double list) demo_external)))
       \<le> rect_height (screen (fst (GetScreenInfo ([] :: double list) demo_external))) \<and>
   \<not> 0 \<le> dockHeight (fst (GetScreenInfo ([] :: double list) demo_external))"
  by (simp add: GetScreenInfo_def Let_def demo_external_def NSMakeRect_def)

section \<open>Properties of \<^verbatim>\<open>ForceWindowOverDock\<close>\<close>

text \<open>
  C4. A call with fewer than five arguments raises the \<^verbatim>\<open>TypeError\<close>
  "Wrong number of arguments" and leaves the whole state as it was: no window is
  changed and no message is sent.
\<close>

theorem ForceWindowOverDock_too_few:
  assumes "length info < 5"
  shows "ForceWindowOverDock info s = (Inl (TypeError ''Wrong number of arguments''), s)"
  using assms by (rule ForceWindowOverDock_short)

theorem ForceWindowOverDock_too_few_witness:
  "length [7, 0, 0, 800 :: double] < 5 \<and>
   ForceWindowOverDock [7, 0, 0, 800] demo_desktop =
     (Inl (TypeError ''Wrong number of arguments''), demo_desktop)"
  using ForceWindowOverDock_too_few [of "[7, 0, 0, 800]" demo_desktop] by simp

text \<open>
  C6. The number of arguments the call requires is at least five, not exactly five:
  with fewer than five it raises the \<^verbatim>\<open>TypeError\<close> and changes nothing; with five or
  more it raises nothing, returns a boolean, and does exactly what it does on the first
  five, the others being ignored.
\<close>

theorem ForceWindowOverDock_at_least_five:
  "(length info < 5 \<longrightarrow>
      ForceWindowOverDock info s = (Inl (TypeError ''Wrong number of arguments''), s))
   \<and> (5 \<le> length info \<longrightarrow>
        (fst (ForceWindowOverDock info s) = Inr True \<or> fst (ForceWindowOverDock info s) = Inr False)
        \<and> ForceWindowOverDock info s = ForceWindowOverDock (take 5 info) s)"
proof (intro conjI impI)
  assume "length info < 5"
  then show "ForceWindowOverDock info s = (Inl (TypeError ''Wrong number of arguments''), s)"
    by (rule ForceWindowOverDock_short)
next
  assume "5 \<le> length info"
  then show "fst (ForceWindowOverDock info s) = Inr True \<or> fst (ForceWindowOverDock info s) = Inr False"
    by (simp add: ForceWindowOverDock_def Let_def split: option.split)
next
  assume "5 \<le> length info"
  then show "ForceWindowOverDock info s = ForceWindowOverDock (take 5 info) s"
    by (simp add: ForceWindowOverDock_def)
qed

theorem ForceWindowOverDock_at_least_five_witness:
  "length [7, 0, 0 :: double] < 5 \<and>
   ForceWindowOverDock [7, 0, 0] demo_desktop =
     (Inl (TypeError ''Wrong number of arguments''), demo_desktop) \<and>
   5 \<le> length [9, 0, 0, 800, 600, 99 :: double] \<and>
   fst (ForceWindowOverDock [9, 0, 0, 800, 600, 99] demo_desktop) = Inr False \<and>
   ForceWindowOverDock [9, 0, 0, 800, 600, 99] demo_desktop =
     ForceWindowOverDock [9, 0, 0, 800, 600] demo_desktop"
proof -
  have "fst (ForceWindowOverDock [9, 0, 0, 800, 600, 99] demo_desktop) = Inr False"
    by (simp add: ForceWindowOverDock_def Let_def demo_desktop_def demo_window_def
        Int32Value_def)
  then show ?thesis
    using ForceWindowOverDock_at_least_five [of "[7, 0, 0]" demo_desktop]
      ForceWindowOverDock_at_least_five [of "[9, 0, 0, 800, 600, 99]" demo_desktop]
    by simp
qed

text \<open>
  A call with six arguments is not rejected: it finds window 7 and returns
  \<open>true\<close>.
\<close>

theorem ForceWindowOverDock_six_arguments:
  "length [7, 0, 0, 800, 600, 99 :: double] \<noteq> 5 \<and>
   fst (ForceWindowOverDock [7, 0, 0, 800, 600, 99] demo_desktop) = Inr True"
  by (simp add: ForceWindowOverDock_def Let_def demo_desktop_def demo_window_def
        Int32Value_def)

text \<open>
  C3. A call with at least five arguments whose identifier, converted as the code
  converts it, is the number of no window of the application returns \<open>false\<close>,
  raises nothing, and leaves the whole state as it was.
\<close>

theorem ForceWindowOverDock_not_found:
  assumes "5 \<le> length info"
    and "\<forall>w \<in> set (NSApp_windows s). windowNumber w \<noteq> scast (Int32Value (info ! 0))"
  shows "ForceWindowOverDock info s = (Inr False, s)"
  using assms by (simp add: ForceWindowOverDock_None findWindow_None)

theorem ForceWindowOverDock_not_found_witness:
  "5 \<le> length [9, 0, 0, 800, 600 :: double] \<and>
   list_all (\<lambda>w. windowNumber w \<noteq> scast (Int32Value ([9, 0, 0, 800, 600] ! 0)))
     (NSApp_windows demo_desktop) \<and>
   ForceWindowOverDock [9, 0, 0, 800, 600] demo_desktop = (Inr False, demo_desktop)"
proof -
  have h: "\<forall>w \<in> set (NSApp_windows demo_desktop).
      windowNumber w \<noteq> scast (Int32Value ([9, 0, 0, 800, 600] ! 0))"
    by (simp add: demo_desktop_def demo_window_def Int32Value_def)
  from ForceWindowOverDock_not_found [of "[9, 0, 0, 800, 600]" demo_desktop] h
  show ?thesis by (simp add: list_all_iff)
qed

text \<open>
  C5. When some window of the application has the number the identifier converts to,
  the call selects the first such window in the order of the array: no window before it
  has that number. It returns \<open>true\<close>; the array of windows afterwards is the array
  before with that one window's level, frame, collection behavior and movability set;
  every other window is what it was; and the four messages sent all go to that window.
\<close>

theorem ForceWindowOverDock_first_match:
  assumes "5 \<le> length info"
    and "\<exists>w \<in> set (NSApp_windows s). windowNumber w = scast (Int32Value (info ! 0))"
    and "ForceWindowOverDock info s = (r, s')"
  shows "\<exists>i<length (NSApp_windows s).
           windowNumber (NSApp_windows s ! i) = scast (Int32Value (info ! 0))
         \<and> (\<forall>j<i. windowNumber (NSApp_windows s ! j) \<noteq> scast (Int32Value (info ! 0)))
         \<and> r = Inr True
         \<and> NSApp_windows s' = (NSApp_windows s)[i := (NSApp_windows s ! i)
              \<lparr>level := scast (kCGDockWindowLevel s + 1),
               frame := \<lparr>origin = \<lparr>point_x = info ! 1, point_y = info ! 2\<rparr>,
                         rect_size = \<lparr>size_width = info ! 3, size_height = info ! 4\<rparr>\<rparr>,
               collectionBehavior := NSWindowCollectionBehaviorCanJoinAllSpaces
                                       OR NSWindowCollectionBehaviorStationary
                                       OR NSWindowCollectionBehaviorIgnoresCycle,
               isMovable := False\<rparr>]
         \<and> length (NSApp_windows s') = length (NSApp_windows s)
         \<and> (\<forall>j<length (NSApp_windows s). j \<noteq> i \<longrightarrow> NSApp_windows s' ! j = NSApp_windows s ! j)
         \<and> map fst (drop (length (sent s)) (sent s')) = [i, i, i, i]"
proof -
  from assms(2) have "findWindow (NSApp_windows s) (Int32Value (info ! 0)) \<noteq> None"
    by (simp add: findWindow_None)
  then obtain i where f: "findWindow (NSApp_windows s) (Int32Value (info ! 0)) = Some i"
    by blast
  note p = findWindow_Some [OF f]
  from assms(3) have rs: "r = fst (ForceWindowOverDock info s)" "s' = snd (ForceWindowOverDock info s)"
    by simp_all
  note e = ForceWindowOverDock_Some [OF assms(1) f]
  have "i < length (NSApp_windows s)" using p by simp
  moreover have "windowNumber (NSApp_windows s ! i) = scast (Int32Value (info ! 0))"
    using p by simp
  moreover have "\<forall>j<i. windowNumber (NSApp_windows s ! j) \<noteq> scast (Int32Value (info ! 0))"
    using p by simp
  moreover have "r = Inr True" by (simp add: rs e)
  moreover have "NSApp_windows s' = (NSApp_windows s)[i := (NSApp_windows s ! i)
              \<lparr>level := scast (kCGDockWindowLevel s + 1),
               frame := \<lparr>origin = \<lparr>point_x = info ! 1, point_y = info ! 2\<rparr>,
                         rect_size = \<lparr>size_width = info ! 3, size_height = info ! 4\<rparr>\<rparr>,
               collectionBehavior := NSWindowCollectionBehaviorCanJoinAllSpaces
                                       OR NSWindowCollectionBehaviorStationary
                                       OR NSWindowCollectionBehaviorIgnoresCycle,
               isMovable := False\<rparr>]"
    by (simp add: rs e)
  moreover have "length (NSApp_windows s') = length (NSApp_windows s)"
    by (simp add: rs e)
  moreover have "\<forall>j<length (NSApp_windows s). j \<noteq> i \<longrightarrow> NSApp_windows s' ! j = NSApp_windows s ! j"
    by (simp add: rs e)
  moreover have "map fst (drop (length (sent s)) (sent s')) = [i, i, i, i]"
    by (simp add: rs e)
  ultimately show ?thesis by - (rule exI [of _ i], simp)
qed

theorem ForceWindowOverDock_first_match_witness:
  "5 \<le> length [7, 0, 0, 800, 600 :: double] \<and>
   (\<exists>w \<in> set (NSApp_windows demo_desktop).
      windowNumber w = scast (Int32Value ([7, 0, 0, 800, 600] ! 0))) \<and>
   map windowNumber (NSApp_windows demo_desktop) = [3, 7, 4294967301, 7, 5] \<and>
   fst (ForceWindowOverDock [7, 0, 0, 800, 600] demo_desktop) = Inr True \<and>
   NSApp_windows (snd (ForceWindowOverDock [7, 0, 0, 800, 600] demo_desktop)) =
     [demo_window 3,
      \<lparr>windowNumber = 7, level = 21, frame = NSMakeRect 0 0 800 600,
       collectionBehavior = 81, isMovable = False\<rparr>,
      demo_window 4294967301,
      demo_window 7,
      demo_window 5]"
proof -
  let ?info = "[7, 0, 0, 800, 600] :: double list"
  have h1: "5 \<le> length ?info" by simp
  have h2: "\<exists>w \<in> set (NSApp_windows demo_desktop).
      windowNumber w = scast (Int32Value (?info ! 0))"
    by (simp add: demo_desktop_def demo_window_def Int32Value_def)
  from ForceWindowOverDock_first_match [OF h1 h2 surjective_pairing]
  have r: "fst (ForceWindowOverDock ?info demo_desktop) = Inr True"
    by blast
  have "NSApp_windows (snd (ForceWindowOverDock ?info demo_desktop)) =
     [demo_window 3,
      \<lparr>windowNumber = 7, level = 21, frame = NSMakeRect 0 0 800 600,
       collectionBehavior = 81, isMovable = False\<rparr>,
      demo_window 4294967301,
      demo_window 7,
      demo_window 5]"
    by (simp add: ForceWindowOverDock_def Let_def demo_desktop_def demo_window_def
        Int32Value_def DoubleValue_def send_def NSMakeRect_def
        NSWindowCollectionBehaviorCanJoinAllSpaces_def NSWindowCollectionBehaviorStationary_def
        NSWindowCollectionBehaviorIgnoresCycle_def)
  moreover have "map windowNumber (NSApp_windows demo_desktop) = [3, 7, 4294967301, 7, 5]"
    by (simp add: demo_desktop_def demo_window_def)
  ultimately show ?thesis using h1 h2 r by simp
qed

text \<open>
  C2. Let \<open>i\<close> be the first window whose number is the converted identifier. The
  call sends it exactly four messages, in this order: \<^verbatim>\<open>setLevel:\<close> with
  \<^verbatim>\<open>kCGDockWindowLevel + 1\<close>; \<^verbatim>\<open>setFrame:display:animate:\<close> with the rectangle made
  of arguments 1 to 4, \<^verbatim>\<open>display:YES\<close> and \<^verbatim>\<open>animate:NO\<close>;
  \<^verbatim>\<open>setCollectionBehavior:\<close> with the bitwise or of can-join-all-spaces, stationary
  and ignores-cycle; \<^verbatim>\<open>setMovable:NO\<close>. Afterwards the window has that level, that
  frame, that collection behavior, and is not movable. The sum is computed in the
  32-bit \<^verbatim>\<open>CGWindowLevel\<close> type: as long as the dock's level is not the largest value
  of that type (where the addition would overflow), the window's level is the dock's
  level plus one.
\<close>

theorem ForceWindowOverDock_mutations:
  assumes "5 \<le> length info"
    and "i < length (NSApp_windows s)"
    and "windowNumber (NSApp_windows s ! i) = scast (Int32Value (info ! 0))"
    and "\<forall>j<i. windowNumber (NSApp_windows s ! j) \<noteq> scast (Int32Value (info ! 0))"
    and "ForceWindowOverDock info s = (r, s')"
  shows "sent s' = sent s @
           [(i, setLevel (scast (kCGDockWindowLevel s + 1))),
            (i, setFrame_display_animate
                  \<lparr>origin = \<lparr>point_x = info ! 1, point_y = info ! 2\<rparr>,
                   rect_size = \<lparr>size_width = info ! 3, size_height = info ! 4\<rparr>\<rparr> True False),
            (i, setCollectionBehavior
                  (NSWindowCollectionBehaviorCanJoinAllSpaces
                     OR NSWindowCollectionBehaviorStationary
                     OR NSWindowCollectionBehaviorIgnoresCycle)),
            (i, setMovable False)]
       \<and> level (NSApp_windows s' ! i) = scast (kCGDockWindowLevel s + 1)
       \<and> (sint (kCGDockWindowLevel s) < 2 ^ 31 - 1 \<longrightarrow>
            sint (level (NSApp_windows s' ! i)) = sint (kCGDockWindowLevel s) + 1)
       \<and> frame (NSApp_windows s' ! i) =
           \<lparr>origin = \<lparr>point_x = info ! 1, point_y = info ! 2\<rparr>,
            rect_size = \<lparr>size_width = info ! 3, size_height = info ! 4\<rparr>\<rparr>
       \<and> collectionBehavior (NSApp_windows s' ! i) =
           NSWindowCollectionBehaviorCanJoinAllSpaces
             OR NSWindowCollectionBehaviorStationary
             OR NSWindowCollectionBehaviorIgnoresCycle
       \<and> \<not> isMovable (NSApp_windows s' ! i)"
proof -
  from assms(2-4) have f: "findWindow (NSApp_windows s) (Int32Value (info ! 0)) = Some i"
    by (rule findWindow_first)
  from assms(5) have s': "s' = snd (ForceWindowOverDock info s)" by simp
  note r = ForceWindowOverDock_Some [OF assms(1) f]
  have l: "level (NSApp_windows s' ! i) = scast (kCGDockWindowLevel s + 1)"
    using assms(2) by (simp add: s' r)
  have "sint (kCGDockWindowLevel s) < 2 ^ 31 - 1 \<longrightarrow>
        sint (level (NSApp_windows s' ! i)) = sint (kCGDockWindowLevel s) + 1"
    by (simp only: l sint_scast_int32) (simp add: sint_succ_int32)
  then show ?thesis
    using assms(2) by (simp add: s' r)
qed

theorem ForceWindowOverDock_mutations_witness:
  "fst (ForceWindowOverDock [7, 0, 0, 800, 600] demo_desktop) = Inr True \<and>
   sent (snd (ForceWindowOverDock [7, 0, 0, 800, 600] demo_desktop)) =
     [(1, setLevel 21),
      (1, setFrame_display_animate (NSMakeRect 0 0 800 600) True False),
      (1, setCollectionBehavior 81),
      (1, setMovable False)] \<and>
   NSApp_windows (snd (ForceWindowOverDock [7, 0, 0, 800, 600] demo_desktop)) ! 1 =
     \<lparr>windowNumber = 7, level = 21, frame = NSMakeRect 0 0 800 600,
      collectionBehavior = 81, isMovable = False\<rparr> \<and>
   sint (level (NSApp_windows (snd (ForceWindowOverDock [7, 0, 0, 800, 600] demo_desktop)) ! 1)) =
     sint (kCGDockWindowLevel demo_desktop) + 1"
proof -
  let ?info = "[7, 0, 0, 800, 600] :: double list"
  have h1: "5 \<le> length ?info" by simp
  have h2: "1 < length (NSApp_windows demo_desktop)"
    by (simp add: demo_desktop_def)
  have h3: "windowNumber (NSApp_windows demo_desktop ! 1) = scast (Int32Value (?info ! 0))"
    by (simp add: demo_desktop_def demo_window_def Int32Value_def)
  have h4: "\<forall>j<1. windowNumber (NSApp_windows demo_desktop ! j) \<noteq> scast (Int32Value (?info ! 0))"
    by (simp add: demo_desktop_def demo_window_def Int32Value_def)
  have h5: "sint (kCGDockWindowLevel demo_desktop) < 2 ^ 31 - 1"
    by (simp add: demo_desktop_def)
  have e: "ForceWindowOverDock ?info demo_desktop =
    (Inr True,
     demo_desktop\<lparr>NSApp_windows :=
       [demo_window 3,
        \<lparr>windowNumber = 7, level = 21, frame = NSMakeRect 0 0 800 600,
         collectionBehavior = 81, isMovable = False\<rparr>,
        demo_window 4294967301, demo_window 7, demo_window 5],
       sent := [(1, setLevel 21),
                (1, setFrame_display_animate (NSMakeRect 0 0 800 600) True False),
                (1, setCollectionBehavior 81),
                (1, setMovable False)]\<rparr>)"
    by (simp add: ForceWindowOverDock_def Let_def demo_desktop_def demo_window_def
        Int32Value_def DoubleValue_def send_def NSMakeRect_def
        NSWindowCollectionBehaviorCanJoinAllSpaces_def NSWindowCollectionBehaviorStationary_def
        NSWindowCollectionBehaviorIgnoresCycle_def)
  from ForceWindowOverDock_mutations [OF h1 h2 h3 h4 surjective_pairing] h5
  have "sint (level (NSApp_windows (snd (ForceWindowOverDock ?info demo_desktop)) ! 1)) =
     sint (kCGDockWindowLevel demo_desktop) + 1"
    by blast
  then show ?thesis
    by (simp add: e)
qed

text \<open>
  C8. Calling \<open>ForceWindowOverDock\<close> a second time with the same arguments, on the
  state the first call left, leaves every window (number, level, frame, collection
  behavior, movability) as the first call left it, and returns what the first call
  returned.
\<close>

theorem ForceWindowOverDock_idempotent:
  "NSApp_windows (snd (ForceWindowOverDock info (snd (ForceWindowOverDock info s)))) =
     NSApp_windows (snd (ForceWindowOverDock info s))
   \<and> fst (ForceWindowOverDock info (snd (ForceWindowOverDock info s))) =
       fst (ForceWindowOverDock info s)"
proof (cases "length info < 5")
  case True
  then show ?thesis by (simp add: ForceWindowOverDock_short)
next
  case False
  then have n: "5 \<le> length info" by simp
  show ?thesis
  proof (cases "findWindow (NSApp_windows s) (Int32Value (info ! 0))")
    case None
    then show ?thesis by (simp add: ForceWindowOverDock_None [OF n])
  next
    case (Some i)
    note e = ForceWindowOverDock_Some [OF n Some]
    let ?s' = "snd (ForceWindowOverDock info s)"
    from findWindow_Some [OF Some] have i: "i < length (NSApp_windows s)" by simp
    have "map windowNumber (NSApp_windows ?s') = map windowNumber (NSApp_windows s)"
      using i by (simp add: e map_update list_update_same_conv)
    then have "findWindow (NSApp_windows ?s') (Int32Value (info ! 0)) = Some i"
      using Some findWindow_cong by metis
    note e' = ForceWindowOverDock_Some [OF n this]
    have d: "kCGDockWindowLevel ?s' = kCGDockWindowLevel s" by (simp add: e)
    show ?thesis
      using i by (simp add: e' d) (simp add: e)
  qed
qed

text \<open>
  C10. The window identifier reaches the comparison truncated to a signed 32-bit
  integer, and the window selected is the one that integer numbers. Two calls whose
  identifiers truncate to the same integer, and whose other arguments are the same, have
  the same result and the same effect. With at least five arguments, the first window
  whose number equals the truncated identifier is the one the call changes, and the
  call returns \<open>true\<close>; when no window has that number the call returns \<open>false\<close>
  and changes nothing. No call changes a window whose number differs from the truncated
  identifier; a window whose number is outside the signed 32-bit range always differs
  from it, so it is never matched and never changed.
\<close>

theorem ForceWindowOverDock_windowId_int32:
  "(truncate_int32 a = truncate_int32 b \<longrightarrow>
      ForceWindowOverDock (a # rest) s = ForceWindowOverDock (b # rest) s)
   \<and> (4 \<le> length rest
        \<and> i < length (NSApp_windows s)
        \<and> sint (windowNumber (NSApp_windows s ! i)) = truncate_int32 a
        \<and> (\<forall>j<i. sint (windowNumber (NSApp_windows s ! j)) \<noteq> truncate_int32 a) \<longrightarrow>
      fst (ForceWindowOverDock (a # rest) s) = Inr True
      \<and> NSApp_windows (snd (ForceWindowOverDock (a # rest) s)) =
          (NSApp_windows s)[i := (NSApp_windows s ! i)
             \<lparr>level := scast (kCGDockWindowLevel s + 1),
              frame := \<lparr>origin = \<lparr>point_x = rest ! 0, point_y = rest ! 1\<rparr>,
                        rect_size = \<lparr>size_width = rest ! 2, size_height = rest ! 3\<rparr>\<rparr>,
              collectionBehavior := NSWindowCollectionBehaviorCanJoinAllSpaces
                                      OR NSWindowCollectionBehaviorStationary
                                      OR NSWindowCollectionBehaviorIgnoresCycle,
              isMovable := False\<rparr>])
   \<and> (4 \<le> length rest
        \<and> (\<forall>w \<in> set (NSApp_windows s). sint (windowNumber w) \<noteq> truncate_int32 a) \<longrightarrow>
      ForceWindowOverDock (a # rest) s = (Inr False, s))
   \<and> (sint (windowNumber (NSApp_windows s ! k)) \<noteq> truncate_int32 a \<longrightarrow>
        NSApp_windows (snd (ForceWindowOverDock (a # rest) s)) ! k = NSApp_windows s ! k)
   \<and> (sint (windowNumber (NSApp_windows s ! k)) < - (2 ^ 31)
          \<or> 2 ^ 31 \<le> sint (windowNumber (NSApp_windows s ! k)) \<longrightarrow>
        sint (windowNumber (NSApp_windows s ! k)) \<noteq> truncate_int32 a
        \<and> NSApp_windows (snd (ForceWindowOverDock (a # rest) s)) ! k = NSApp_windows s ! k)"
proof -
  have same: "ForceWindowOverDock (a # rest) s = ForceWindowOverDock (b # rest) s"
    if "truncate_int32 a = truncate_int32 b"
  proof -
    from that have "Int32Value a = Int32Value b" by (simp add: Int32Value_eq_iff)
    then show ?thesis by (simp add: ForceWindowOverDock_def)
  qed
  have found: "fst (ForceWindowOverDock (a # rest) s) = Inr True
      \<and> NSApp_windows (snd (ForceWindowOverDock (a # rest) s)) =
          (NSApp_windows s)[i := (NSApp_windows s ! i)
             \<lparr>level := scast (kCGDockWindowLevel s + 1),
              frame := \<lparr>origin = \<lparr>point_x = rest ! 0, point_y = rest ! 1\<rparr>,
                        rect_size = \<lparr>size_width = rest ! 2, size_height = rest ! 3\<rparr>\<rparr>,
              collectionBehavior := NSWindowCollectionBehaviorCanJoinAllSpaces
                                      OR NSWindowCollectionBehaviorStationary
                                      OR NSWindowCollectionBehaviorIgnoresCycle,
              isMovable := False\<rparr>]"
    if h: "4 \<le> length rest
        \<and> i < length (NSApp_windows s)
        \<and> sint (windowNumber (NSApp_windows s ! i)) = truncate_int32 a
        \<and> (\<forall>j<i. sint (windowNumber (NSApp_windows s ! j)) \<noteq> truncate_int32 a)"
  proof -
    from h have n: "5 \<le> length (a # rest)" by simp
    from h have "findWindow (NSApp_windows s) (Int32Value a) = Some i"
      by (intro findWindow_first) (simp_all add: windowNumber_eq_iff)
    then have "findWindow (NSApp_windows s) (Int32Value ((a # rest) ! 0)) = Some i" by simp
    from ForceWindowOverDock_Some [OF n this] show ?thesis by simp
  qed
  have none: "ForceWindowOverDock (a # rest) s = (Inr False, s)"
    if h: "4 \<le> length rest
        \<and> (\<forall>w \<in> set (NSApp_windows s). sint (windowNumber w) \<noteq> truncate_int32 a)"
  proof -
    from h have n: "5 \<le> length (a # rest)" by simp
    from h have "findWindow (NSApp_windows s) (Int32Value ((a # rest) ! 0)) = None"
      by (simp add: findWindow_None windowNumber_eq_iff)
    from ForceWindowOverDock_None [OF n this] show ?thesis .
  qed
  have other: "NSApp_windows (snd (ForceWindowOverDock (a # rest) s)) ! k = NSApp_windows s ! k"
    if h: "sint (windowNumber (NSApp_windows s ! k)) \<noteq> truncate_int32 a"
  proof -
    have "findWindow (NSApp_windows s) (Int32Value ((a # rest) ! 0)) \<noteq> Some k"
    proof
      assume "findWindow (NSApp_windows s) (Int32Value ((a # rest) ! 0)) = Some k"
      from findWindow_Some [OF this] have "windowNumber (NSApp_windows s ! k) = scast (Int32Value a)"
        by simp
      then have "sint (windowNumber (NSApp_windows s ! k)) = truncate_int32 a"
        by (simp only: windowNumber_eq_iff)
      with h show False by simp
    qed
    then show ?thesis by (rule ForceWindowOverDock_untouched)
  qed
  have out: "sint (windowNumber (NSApp_windows s ! k)) \<noteq> truncate_int32 a"
    if "sint (windowNumber (NSApp_windows s ! k)) < - (2 ^ 31)
          \<or> 2 ^ 31 \<le> sint (windowNumber (NSApp_windows s ! k))"
    using that truncate_int32_range [of a] by auto
  from same found none other out show ?thesis by blast
qed

theorem ForceWindowOverDock_windowId_int32_witness:
  "truncate_int32 4294967301 = 5 \<and>
   ForceWindowOverDock [4294967301, 0, 0, 800, 600] demo_numbers =
     ForceWindowOverDock [5, 0, 0, 800, 600] demo_numbers \<and>
   fst (ForceWindowOverDock [4294967301, 0, 0, 800, 600] demo_numbers) = Inr True \<and>
   NSApp_windows (snd (ForceWindowOverDock [4294967301, 0, 0, 800, 600] demo_numbers)) =
     [demo_window 7, demo_window 4294967301, demo_window 65543,
      \<lparr>windowNumber = 5, level = 21, frame = NSMakeRect 0 0 800 600,
       collectionBehavior = 81, isMovable = False\<rparr>] \<and>
   2 ^ 31 \<le> sint (windowNumber (NSApp_windows demo_numbers ! 1)) \<and>
   NSApp_windows (snd (ForceWindowOverDock [4294967301, 0, 0, 800, 600] demo_numbers)) ! 1 =
     NSApp_windows demo_numbers ! 1 \<and>
   truncate_int32 65543 = 65543 \<and>
   fst (ForceWindowOverDock [65543, 0, 0, 800, 600] demo_numbers) = Inr True \<and>
   NSApp_windows (snd (ForceWindowOverDock [65543, 0, 0, 800, 600] demo_numbers)) =
     [demo_window 7, demo_window 4294967301,
      \<lparr>windowNumber = 65543, level = 21, frame = NSMakeRect 0 0 800 600,
       collectionBehavior = 81, isMovable = False\<rparr>,
      demo_window 5] \<and>
   truncate_int32 9 = 9 \<and>
   ForceWindowOverDock [9, 0, 0, 800, 600] demo_numbers = (Inr False, demo_numbers)"
proof -
  let ?rest = "[0, 0, 800, 600] :: double list"
  let ?ws = "NSApp_windows demo_numbers"
  have ws: "?ws = [demo_window 7, demo_window 4294967301, demo_window 65543, demo_window 5]"
    by (simp add: demo_numbers_def)
  have dock: "kCGDockWindowLevel demo_numbers = 20"
    by (simp add: demo_numbers_def)
  have t1: "truncate_int32 4294967301 = 5" and t2: "truncate_int32 5 = 5"
    and t3: "truncate_int32 65543 = 65543" and t4: "truncate_int32 9 = 9"
    by (simp_all add: truncate_int32_def)
  have flags: "NSWindowCollectionBehaviorCanJoinAllSpaces
      OR NSWindowCollectionBehaviorStationary
      OR NSWindowCollectionBehaviorIgnoresCycle = 81"
    by (simp add: NSWindowCollectionBehaviorCanJoinAllSpaces_def
        NSWindowCollectionBehaviorStationary_def NSWindowCollectionBehaviorIgnoresCycle_def)
  have n: "4 \<le> length ?rest" by simp
  have a1: "3 < length ?ws" and a2: "2 < length ?ws" by (simp_all add: ws)
  have b1: "sint (windowNumber (?ws ! 3)) = truncate_int32 4294967301"
    by (simp add: ws t1 demo_window_def)
  have c1: "\<forall>j<3. sint (windowNumber (?ws ! j)) \<noteq> truncate_int32 4294967301"
    by (simp add: ws t1 demo_window_def less_Suc_eq numeral_3_eq_3)
  have b2: "sint (windowNumber (?ws ! 2)) = truncate_int32 65543"
    by (simp add: ws t3 demo_window_def)
  have c2: "\<forall>j<2. sint (windowNumber (?ws ! j)) \<noteq> truncate_int32 65543"
    by (simp add: ws t3 demo_window_def less_Suc_eq numeral_2_eq_2)
  have d: "\<forall>w \<in> set ?ws. sint (windowNumber w) \<noteq> truncate_int32 9"
    by (simp add: ws t4 demo_window_def)
  note m1 = ForceWindowOverDock_windowId_int32 [of 4294967301 5 ?rest demo_numbers 3 1]
  note m2 = ForceWindowOverDock_windowId_int32 [of 65543 65543 ?rest demo_numbers 2 1]
  note m3 = ForceWindowOverDock_windowId_int32 [of 9 9 ?rest demo_numbers 0 1]
  from m1 t1 t2 have r1: "ForceWindowOverDock [4294967301, 0, 0, 800, 600] demo_numbers =
     ForceWindowOverDock [5, 0, 0, 800, 600] demo_numbers"
    by simp
  from m1 n a1 b1 c1 have r2: "fst (ForceWindowOverDock (4294967301 # ?rest) demo_numbers) = Inr True
      \<and> NSApp_windows (snd (ForceWindowOverDock (4294967301 # ?rest) demo_numbers)) =
          ?ws[3 := (?ws ! 3)
             \<lparr>level := scast (kCGDockWindowLevel demo_numbers + 1),
              frame := \<lparr>origin = \<lparr>point_x = ?rest ! 0, point_y = ?rest ! 1\<rparr>,
                        rect_size = \<lparr>size_width = ?rest ! 2, size_height = ?rest ! 3\<rparr>\<rparr>,
              collectionBehavior := NSWindowCollectionBehaviorCanJoinAllSpaces
                                      OR NSWindowCollectionBehaviorStationary
                                      OR NSWindowCollectionBehaviorIgnoresCycle,
              isMovable := False\<rparr>]"
    by blast
  from m2 n a2 b2 c2 have r3: "fst (ForceWindowOverDock (65543 # ?rest) demo_numbers) = Inr True
      \<and> NSApp_windows (snd (ForceWindowOverDock (65543 # ?rest) demo_numbers)) =
          ?ws[2 := (?ws ! 2)
             \<lparr>level := scast (kCGDockWindowLevel demo_numbers + 1),
              frame := \<lparr>origin = \<lparr>point_x = ?rest ! 0, point_y = ?rest ! 1\<rparr>,
                        rect_size = \<lparr>size_width = ?rest ! 2, size_height = ?rest ! 3\<rparr>\<rparr>,
              collectionBehavior := NSWindowCollectionBehaviorCanJoinAllSpaces
                                      OR NSWindowCollectionBehaviorStationary
                                      OR NSWindowCollectionBehaviorIgnoresCycle,
              isMovable := False\<rparr>]"
    by blast
  have o: "2 ^ 31 \<le> sint (windowNumber (?ws ! 1))"
    by (simp add: ws demo_window_def)
  from m1 o have r5:
    "NSApp_windows (snd (ForceWindowOverDock (4294967301 # ?rest) demo_numbers)) ! 1 = ?ws ! 1"
    by blast
  from m3 n d have r4: "ForceWindowOverDock (9 # ?rest) demo_numbers = (Inr False, demo_numbers)"
    by blast
  have u3: "?ws[3 := v] = [demo_window 7, demo_window 4294967301, demo_window 65543, v]" for v
    by (simp add: ws numeral_3_eq_3)
  have u2: "?ws[2 := v] = [demo_window 7, demo_window 4294967301, v, demo_window 5]" for v
    by (simp add: ws numeral_2_eq_2)
  have w3: "?ws ! 3 = demo_window 5" and w2: "?ws ! 2 = demo_window 65543"
    by (simp_all add: ws)
  from r2 have r2': "fst (ForceWindowOverDock [4294967301, 0, 0, 800, 600] demo_numbers) = Inr True
    \<and> NSApp_windows (snd (ForceWindowOverDock [4294967301, 0, 0, 800, 600] demo_numbers)) =
     [demo_window 7, demo_window 4294967301, demo_window 65543,
      \<lparr>windowNumber = 5, level = 21, frame = NSMakeRect 0 0 800 600,
       collectionBehavior = 81, isMovable = False\<rparr>]"
    by (simp add: u3 w3 dock flags demo_window_def NSMakeRect_def)
  from r3 have r3': "fst (ForceWindowOverDock [65543, 0, 0, 800, 600] demo_numbers) = Inr True
    \<and> NSApp_windows (snd (ForceWindowOverDock [65543, 0, 0, 800, 600] demo_numbers)) =
     [demo_window 7, demo_window 4294967301,
      \<lparr>windowNumber = 65543, level = 21, frame = NSMakeRect 0 0 800 600,
       collectionBehavior = 81, isMovable = False\<rparr>,
      demo_window 5]"
    by (simp add: u2 w2 dock flags demo_window_def NSMakeRect_def)
  from t1 r1 r2' o r5 t3 r3' t4 r4 show ?thesis by (intro conjI) blast+
qed

end
